theory Spec2Isabelle
  imports Complex_Main "HOL-Library.Word"
begin

unbundle bit_operations_syntax

section \<open>The syntax tree, as the metric functions query it\<close>

text \<open>
  The metric functions of \<^verbatim>\<open>functions/helper.ts\<close> never build or change a tree: they ask
  the tree provider (ts-morph) for the kind of a node, its flags, its parent, its children
  and its descendants of a kind, and for a few accessors that only some node classes have.
  The tree is modelled as the provider shows it. The kinds are the ones the functions
  name, the class member kinds, and the kinds the example files below need. The
  provider's enumeration has three ranges, and a search by kind depends on the range:
  the tokens and keywords (below \<open>SyntaxKind.FirstNode\<close>; the others of them are
  \<open>OtherToken n\<close>), the nodes of the parse tree (the others are \<open>OtherNode n\<close>), and the
  kinds from \<open>SyntaxKind.FirstJSDocNode\<close> on (\<open>JSDocKind n\<close>).
\<close>

datatype SyntaxKind =
    SourceFile | EndOfFileToken | Identifier | Parameter | Block | ReturnStatement
  | ExpressionStatement | VariableStatement | TypeAliasDeclaration | TupleType | PublicKeyword
  | AnyKeyword | TypeReference | FunctionDeclaration | ClassDeclaration
  | MethodDeclaration | PropertyDeclaration | Constructor | GetAccessor | SetAccessor
  | ClassStaticBlockDeclaration
  | IfStatement | SwitchStatement | ForStatement | ForInStatement | ForOfStatement
  | WhileStatement | DoStatement | TryStatement | CatchClause | ConditionalExpression
  | BinaryExpression | AmpersandAmpersandToken | BarBarToken
  | QuestionDotToken | QuestionQuestionToken
  | VariableDeclaration | VariableDeclarationList
  | TypeAssertionExpression | NonNullExpression | AsExpression | CallExpression
  | OtherToken nat | OtherNode nat | JSDocKind nat

text \<open>
  \<open>getStructure()\<close> answers a plain object; the code reads its \<open>isReadonly\<close> property,
  which may be \<open>undefined\<close> (\<open>None\<close>).
\<close>

record Structure =
  isReadonly :: "bool option"

text \<open>
  A node carries its kind, its flags (a 32-bit integer, read with the bitwise \<open>&\<close>), the
  accessors that exist on some node classes only, and its children. For \<open>getModifiers\<close>,
  \<open>getOperatorToken\<close> and \<open>getStructure\<close> the value \<open>None\<close> says that the node has no
  such method (\<open>typeof node.getModifiers !== "function"\<close>), and \<open>Some r\<close> that the method
  exists and answers \<open>r\<close>. \<open>getReturnTypeNode\<close> exists on every function declaration and
  answers a node or \<open>undefined\<close> (\<open>None\<close>).

  \<open>isAmbient\<close>, \<open>isImplementation\<close> and \<open>isAbstract\<close> are what the provider's methods of
  these names answer for a declaration (under \<open>declare\<close> or in a declaration file; with
  a body; marked \<open>abstract\<close>). The provider reads them when it lists functions and
  members: an overload signature is a declaration without a body.

  The children come in two lists. \<open>forEachChild\<close> are the children of the parse tree,
  in the order \<open>forEachChild\<close> visits them. \<open>otherChildren\<close> are the further children
  that only \<open>getChildren()\<close> lists, the tokens and the JSDoc nodes.
\<close>

datatype Node = Node
  (getKind: SyntaxKind)
  (getFlags: "32 word")
  (getModifiers: "Node list option")
  (getOperatorToken: "Node option")
  (getStructure: "Structure option")
  (getReturnTypeNode: "Node option")
  (isAmbient: bool)
  (isImplementation: bool)
  (isAbstract: bool)
  (forEachChild: "Node list")
  (otherChildren: "Node list")

text \<open>The two flags of \<open>ts.NodeFlags\<close> that the code reads.\<close>

definition NodeFlags_Let :: "32 word" where
  "NodeFlags_Let = 1"

definition NodeFlags_Const :: "32 word" where
  "NodeFlags_Const = 2"

text \<open>
  A node found below another one is handed out together with its parent, which is what
  \<open>getParent()\<close> answers for it.
\<close>

type_synonym Located = "Node \<times> Node"

definition getParent :: "Located \<Rightarrow> Node" where
  "getParent v = fst v"

definition theNode :: "Located \<Rightarrow> Node" where
  "theNode v = snd v"

text \<open>
  The proper descendants of a node, parents before children: through the parse tree, and
  through all the children that \<open>getChildren()\<close> lists.
\<close>

fun getDescendants :: "Node \<Rightarrow> Located list" where
  "getDescendants (Node k fl ms tok st rt am im ab cs os) =
     concat (map (\<lambda>c. (Node k fl ms tok st rt am im ab cs os, c) # getDescendants c) cs)"

fun getAllDescendants :: "Node \<Rightarrow> Located list" where
  "getAllDescendants (Node k fl ms tok st rt am im ab cs os) =
     concat (map (\<lambda>c. (Node k fl ms tok st rt am im ab cs os, c) # getAllDescendants c)
               (cs @ os))"

text \<open>
  \<open>getDescendantsOfKind\<close> searches the parse tree for a kind of the parse tree, and all
  the children for a token, a keyword or a JSDoc kind. So the \<open>any\<close> of a JSDoc comment
  counts as an \<open>AnyKeyword\<close>, while a type reference in a JSDoc comment does not count
  as a \<open>TypeReference\<close>. Where the code searches for a token kind it reads only the
  length of the answer, so the place of \<open>otherChildren\<close> among the children does not
  matter.
\<close>

fun useParseTreeSearchForKind :: "SyntaxKind \<Rightarrow> bool" where
  "useParseTreeSearchForKind EndOfFileToken = False"
| "useParseTreeSearchForKind Identifier = False"
| "useParseTreeSearchForKind PublicKeyword = False"
| "useParseTreeSearchForKind AnyKeyword = False"
| "useParseTreeSearchForKind AmpersandAmpersandToken = False"
| "useParseTreeSearchForKind BarBarToken = False"
| "useParseTreeSearchForKind QuestionDotToken = False"
| "useParseTreeSearchForKind QuestionQuestionToken = False"
| "useParseTreeSearchForKind (OtherToken n) = False"
| "useParseTreeSearchForKind (JSDocKind n) = False"
| "useParseTreeSearchForKind k = True"

definition getDescendantsOfKind :: "SyntaxKind \<Rightarrow> Node \<Rightarrow> Located list" where
  "getDescendantsOfKind kind n =
     filter (\<lambda>d. getKind (theNode d) = kind)
       (if useParseTreeSearchForKind kind then getDescendants n else getAllDescendants n)"

text \<open>
  \<open>getFunctions()\<close> answers the function declarations among the statements of the file,
  not the nested ones, and of these the ambient ones and the ones with a body: the
  overload signatures are left out. \<open>getClasses()\<close> answers the class declarations among
  the statements. \<open>getMembers()\<close> answers the members of a class, which are its children
  of the member kinds; in a class that is not ambient, a constructor or method without
  a body is left out unless it is an abstract method.
\<close>

definition getFunctions :: "Node \<Rightarrow> Node list" where
  "getFunctions sourceFile =
     filter (\<lambda>f. isAmbient f \<or> isImplementation f)
       (filter (\<lambda>c. getKind c = FunctionDeclaration) (forEachChild sourceFile))"

definition getClasses :: "Node \<Rightarrow> Node list" where
  "getClasses sourceFile = filter (\<lambda>c. getKind c = ClassDeclaration) (forEachChild sourceFile)"

definition isClassMemberKind :: "SyntaxKind \<Rightarrow> bool" where
  "isClassMemberKind k = (k \<in> set [MethodDeclaration, PropertyDeclaration, Constructor,
     GetAccessor, SetAccessor, ClassStaticBlockDeclaration])"

definition keptMember :: "Node \<Rightarrow> bool" where
  "keptMember m =
     (if \<not> (getKind m = Constructor \<or> getKind m = MethodDeclaration) then True
      else if getKind m = MethodDeclaration \<and> isAbstract m then True
      else isImplementation m)"

definition getMembers :: "Node \<Rightarrow> Node list" where
  "getMembers cls =
     filter (\<lambda>m. isClassMemberKind (getKind m))
       (if isAmbient cls then forEachChild cls else filter keptMember (forEachChild cls))"

section \<open>Calls of accessors that may be missing\<close>

text \<open>
  Calling a method that a node does not have throws a \<open>TypeError\<close>. The code guards
  such calls with \<open>typeof node.m === "function" && ...\<close>; the guard and the call are
  modelled apart, so that a call the guard does not cover would show as \<open>Inl TypeError\<close>.
  A \<open>forEach\<close> or \<open>filter\<close> whose callback throws stops and throws.
\<close>

datatype error = TypeError

definition isFunction :: "'a option \<Rightarrow> bool" where
  "isFunction m = (m \<noteq> None)"

definition callMethod :: "'a option \<Rightarrow> error + 'a" where
  "callMethod m = (case m of None \<Rightarrow> Inl TypeError | Some r \<Rightarrow> Inr r)"

fun forEachE :: "('a \<Rightarrow> 's \<Rightarrow> error + 's) \<Rightarrow> 'a list \<Rightarrow> 's \<Rightarrow> error + 's" where
  "forEachE body [] s = Inr s"
| "forEachE body (x # xs) s =
     (case body x s of Inl e \<Rightarrow> Inl e | Inr s' \<Rightarrow> forEachE body xs s')"

fun filterE :: "('a \<Rightarrow> error + bool) \<Rightarrow> 'a list \<Rightarrow> error + 'a list" where
  "filterE p [] = Inr []"
| "filterE p (x # xs) =
     (case p x of Inl e \<Rightarrow> Inl e
      | Inr b \<Rightarrow> (case filterE p xs of Inl e \<Rightarrow> Inl e
                  | Inr ys \<Rightarrow> Inr (if b then x # ys else ys)))"

section \<open>The metric functions\<close>

text \<open>
  A JavaScript number is modelled as an exact rational. The counts are natural numbers,
  and every metric is a quotient of counts or one minus such a quotient.
\<close>

definition calculateAvoidAny :: "Node \<Rightarrow> rat" where
  "calculateAvoidAny sourceFile =
     (let anyCount = length (getDescendantsOfKind AnyKeyword sourceFile);
          typeRefCount = length (getDescendantsOfKind TypeReference sourceFile);
          denominator = (if typeRefCount > 0 then typeRefCount
                         else if anyCount > 0 then anyCount else 1)
      in 1 - of_nat anyCount / of_nat denominator)"

definition calculateReturnTypes :: "Node \<Rightarrow> rat" where
  "calculateReturnTypes sourceFile =
     (let functions = getFunctions sourceFile
      in if length functions = 0 then 1
         else let withReturn = length (filter (\<lambda>f. getReturnTypeNode f \<noteq> None) functions)
              in of_nat withReturn / of_nat (length functions))"


text \<open>
  The callback of \<open>calculateAccessModifiers\<close>: the test
  \<open>typeof member.getModifiers === "function" && member.getModifiers().length > 0\<close>, and
  the two counters \<open>(members, withModifiers)\<close> it updates.
\<close>

definition hasModifiers :: "Node \<Rightarrow> error + bool" where
  "hasModifiers member =
     (if isFunction (getModifiers member)
      then (case callMethod (getModifiers member) of
              Inl e \<Rightarrow> Inl e
            | Inr ms \<Rightarrow> Inr (length ms > 0))
      else Inr False)"

definition countMember :: "Node \<Rightarrow> nat \<times> nat \<Rightarrow> error + nat \<times> nat" where
  "countMember member s =
     (case s of (members, withModifiers) \<Rightarrow>
        (case hasModifiers member of
           Inl e \<Rightarrow> Inl e
         | Inr b \<Rightarrow> Inr (members + 1, if b then withModifiers + 1 else withModifiers)))"

definition calculateAccessModifiers :: "Node \<Rightarrow> error + rat" where
  "calculateAccessModifiers sourceFile =
     (let classes = getClasses sourceFile
      in if length classes = 0 then Inr 1
         else (case forEachE (\<lambda>cls. forEachE countMember (getMembers cls)) classes (0, 0) of
                 Inl e \<Rightarrow> Inl e
               | Inr (members, withModifiers) \<Rightarrow>
                   Inr (if members = 0 then 1 else of_nat withModifiers / of_nat members)))"

text \<open>
  The test \<open>typeof expr.getOperatorToken === "function" &&
  expr.getOperatorToken().getKind() === kind\<close>, which the code writes out three times.
\<close>

definition operatorTokenIs :: "SyntaxKind \<Rightarrow> Located \<Rightarrow> error + bool" where
  "operatorTokenIs kind expr =
     (if isFunction (getOperatorToken (theNode expr))
      then (case callMethod (getOperatorToken (theNode expr)) of
              Inl e \<Rightarrow> Inl e
            | Inr tok \<Rightarrow> Inr (getKind tok = kind))
      else Inr False)"

text \<open>The body of the loop over the functions: the complexity of one function.\<close>

definition functionComplexity :: "Node \<Rightarrow> error + nat" where
  "functionComplexity f =
     (let complexity = 1;
          complexity = complexity + length (getDescendantsOfKind IfStatement f);
          complexity = complexity + length (getDescendantsOfKind SwitchStatement f);
          complexity = complexity + length (getDescendantsOfKind ForStatement f);
          complexity = complexity + length (getDescendantsOfKind ForInStatement f);
          complexity = complexity + length (getDescendantsOfKind ForOfStatement f);
          complexity = complexity + length (getDescendantsOfKind WhileStatement f);
          complexity = complexity + length (getDescendantsOfKind DoStatement f);
          complexity = complexity + length (getDescendantsOfKind TryStatement f);
          complexity = complexity + length (getDescendantsOfKind CatchClause f);
          complexity = complexity + length (getDescendantsOfKind ConditionalExpression f)
      in case filterE (operatorTokenIs AmpersandAmpersandToken)
                (getDescendantsOfKind BinaryExpression f) of
           Inl e \<Rightarrow> Inl e
         | Inr ands \<Rightarrow>
             (case filterE (operatorTokenIs BarBarToken)
                     (getDescendantsOfKind BinaryExpression f) of
                Inl e \<Rightarrow> Inl e
              | Inr ors \<Rightarrow> Inr (complexity + length ands + length ors)))"

definition calculateComplexity :: "Node \<Rightarrow> error + rat" where
  "calculateComplexity sourceFile =
     (let functions = getFunctions sourceFile
      in if length functions = 0 then Inr 1
         else (case forEachE (\<lambda>f totalComplexity.
                        case functionComplexity f of
                          Inl e \<Rightarrow> Inl e
                        | Inr complexity \<Rightarrow> Inr (totalComplexity + complexity))
                      functions 0 of
                 Inl e \<Rightarrow> Inl e
               | Inr totalComplexity \<Rightarrow>
                   (let avgComplexity = of_nat totalComplexity / of_nat (length functions)
                    in Inr (max 0 (1 - (avgComplexity - 1) / 5)))))"

definition isNestingKind :: "SyntaxKind \<Rightarrow> bool" where
  "isNestingKind k = (k \<in> set [IfStatement, SwitchStatement, ForStatement, ForInStatement,
     ForOfStatement, WhileStatement, DoStatement])"

fun getNesting :: "Node \<Rightarrow> nat \<Rightarrow> nat" where
  "getNesting (Node k fl ms tok st rt am im ab cs os) current =
     foldl (\<lambda>localMax child.
              if isNestingKind (getKind child)
              then max localMax (getNesting child (current + 1))
              else max localMax (getNesting child current))
           current cs"

definition calculateNesting :: "Node \<Rightarrow> rat" where
  "calculateNesting sourceFile =
     (let functions = getFunctions sourceFile
      in if length functions = 0 then 1
         else let maxNesting = foldl (\<lambda>maxNesting f. max maxNesting (getNesting f 0)) 0 functions
              in max 0 (1 - of_nat maxNesting / 4))"

definition calculatePreferConst :: "Node \<Rightarrow> rat" where
  "calculatePreferConst sourceFile =
     (let lets = filter (\<lambda>v. getKind (getParent v) = VariableDeclarationList \<and>
                            getFlags (getParent v) AND NodeFlags_Let \<noteq> 0)
                   (getDescendantsOfKind VariableDeclaration sourceFile);
          consts = filter (\<lambda>v. getKind (getParent v) = VariableDeclarationList \<and>
                            getFlags (getParent v) AND NodeFlags_Const \<noteq> 0)
                   (getDescendantsOfKind VariableDeclaration sourceFile);
          total = length lets + length consts
      in if total = 0 then 1 else of_nat (length consts) / of_nat total)"

definition calculateAvoidAssertions :: "Node \<Rightarrow> rat" where
  "calculateAvoidAssertions sourceFile =
     (let assertions = length (getDescendantsOfKind TypeAssertionExpression sourceFile)
                     + length (getDescendantsOfKind NonNullExpression sourceFile);
          asExpressions = length (getDescendantsOfKind AsExpression sourceFile);
          callExpressions = length (getDescendantsOfKind CallExpression sourceFile);
          binaryExpressions = length (getDescendantsOfKind BinaryExpression sourceFile);
          totalExpressions =
            (if asExpressions + callExpressions + binaryExpressions \<noteq> 0
             then asExpressions + callExpressions + binaryExpressions else 1)
      in 1 - of_nat assertions / of_nat totalExpressions)"

definition structureIsReadonly :: "Located \<Rightarrow> error + bool" where
  "structureIsReadonly p =
     (if isFunction (getStructure (theNode p))
      then (case callMethod (getStructure (theNode p)) of
              Inl e \<Rightarrow> Inl e
            | Inr s \<Rightarrow> Inr (isReadonly s = Some True))
      else Inr False)"

definition calculateUseReadonly :: "Node \<Rightarrow> error + rat" where
  "calculateUseReadonly sourceFile =
     (let properties = getDescendantsOfKind PropertyDeclaration sourceFile
      in if length properties = 0 then Inr 1
         else (case filterE structureIsReadonly properties of
                 Inl e \<Rightarrow> Inl e
               | Inr readonlys \<Rightarrow>
                   Inr (of_nat (length readonlys) / of_nat (length properties))))"

definition calculateAvoidVar :: "Node \<Rightarrow> rat" where
  "calculateAvoidVar sourceFile =
     (if list_ex (\<lambda>v. getKind (getParent v) = VariableDeclarationList \<and>
                      \<not> (getFlags (getParent v) AND (NodeFlags_Let OR NodeFlags_Const) \<noteq> 0))
           (getDescendantsOfKind VariableDeclaration sourceFile)
      then 0 else 1)"

definition calculateOptionalChaining :: "Node \<Rightarrow> error + rat" where
  "calculateOptionalChaining sourceFile =
     (case forEachE (\<lambda>e manualNullChecks.
                case operatorTokenIs AmpersandAmpersandToken e of
                  Inl err \<Rightarrow> Inl err
                | Inr b \<Rightarrow> Inr (if b then manualNullChecks + 1 else manualNullChecks))
              (getDescendantsOfKind BinaryExpression sourceFile) 0 of
        Inl err \<Rightarrow> Inl err
      | Inr manualNullChecks \<Rightarrow>
          (let modernOperators = 0;
               modernOperators = modernOperators
                 + length (getDescendantsOfKind QuestionDotToken sourceFile);
               modernOperators = modernOperators
                 + length (getDescendantsOfKind QuestionQuestionToken sourceFile);
               totalNullChecks = (if manualNullChecks + modernOperators \<noteq> 0
                                  then manualNullChecks + modernOperators else 1)
           in Inr (of_nat modernOperators / of_nat totalNullChecks)))"

section \<open>Suggestions and the score\<close>

text \<open>
  A metrics object (\<open>Record<string, number>\<close>) is an association list of its own
  properties in the order of its keys, as \<open>Object.entries\<close> lists them; the keys of an
  object are distinct. \<open>generateSuggestions\<close> reads the ten metric names only, none of
  which is inherited from \<open>Object.prototype\<close>: reading one that is not there gives
  \<open>undefined\<close> (\<open>None\<close>), and \<open>undefined < 1\<close> is false.
\<close>

definition lessThanOne :: "(string \<times> rat) list \<Rightarrow> string \<Rightarrow> bool" where
  "lessThanOne metrics key = (case map_of metrics key of None \<Rightarrow> False | Some v \<Rightarrow> v < 1)"

definition generateSuggestions :: "(string \<times> rat) list \<Rightarrow> string list" where
  "generateSuggestions metrics =
     (let suggestions = [];
          suggestions = (if lessThanOne metrics ''avoidAny''
            then suggestions @ [''Replace `any` with specific types or `unknown`.'']
            else suggestions);
          suggestions = (if lessThanOne metrics ''returnTypes''
            then suggestions @ [''Add explicit return types to functions.'']
            else suggestions);
          suggestions = (if lessThanOne metrics ''accessModifiers''
            then suggestions @ [''Add access modifiers (public/private) to class members.'']
            else suggestions);
          suggestions = (if lessThanOne metrics ''complexity''
            then suggestions @ [''Simplify functions with high complexity by extracting logic.'']
            else suggestions);
          suggestions = (if lessThanOne metrics ''nesting''
            then suggestions @ [''Reduce nesting with early returns or function extraction.'']
            else suggestions);
          suggestions = (if lessThanOne metrics ''preferConst''
            then suggestions @ [''Use `const` instead of `let` for non-reassigned variables.'']
            else suggestions);
          suggestions = (if lessThanOne metrics ''avoidAssertions''
            then suggestions @ [''Replace type assertions with type guards.'']
            else suggestions);
          suggestions = (if lessThanOne metrics ''useReadonly''
            then suggestions @ [''Mark immutable properties as `readonly`.'']
            else suggestions);
          suggestions = (if lessThanOne metrics ''avoidVar''
            then suggestions @ [''Replace `var` with `let` or `const`.'']
            else suggestions);
          suggestions = (if lessThanOne metrics ''optionalChaining''
            then suggestions @
              [''Use optional chaining (`?.`) and nullish coalescing (`??`) for null checks.'']
            else suggestions)
      in suggestions)"

definition weights :: "(string \<times> rat) list" where
  "weights =
     [(''avoidAny'', 10), (''returnTypes'', 10), (''accessModifiers'', 10),
      (''complexity'', 10), (''nesting'', 10), (''preferConst'', 10),
      (''avoidAssertions'', 10), (''useReadonly'', 10), (''avoidVar'', 10),
      (''optionalChaining'', 10)]"

text \<open>
  \<open>weights[key]\<close> reads a property through the prototype chain. The table is an object
  literal, so for a key that is not its own the read finds the members of
  \<open>Object.prototype\<close>: a function, or for \<open>__proto__\<close> the prototype object itself. Such a
  value is not \<open>undefined\<close>, and its product with a number is \<open>NaN\<close>, which every later
  sum and quotient keeps.
\<close>

definition objectPrototypeNames :: "string list" where
  "objectPrototypeNames =
     [''constructor'', ''__defineGetter__'', ''__defineSetter__'', ''hasOwnProperty'',
      ''__lookupGetter__'', ''__lookupSetter__'', ''isPrototypeOf'', ''propertyIsEnumerable'',
      ''toString'', ''valueOf'', ''__proto__'', ''toLocaleString'']"

datatype property = Own rat | Inherited

definition getProperty :: "(string \<times> rat) list \<Rightarrow> string \<Rightarrow> property option" where
  "getProperty obj key =
     (case map_of obj key of
        Some v \<Rightarrow> Some (Own v)
      | None \<Rightarrow> (if key \<in> set objectPrototypeNames then Some Inherited else None))"

datatype number = Num rat | NaN

definition addProduct :: "number \<Rightarrow> property \<Rightarrow> rat \<Rightarrow> number" where
  "addProduct acc p value =
     (case (acc, p) of (Num s, Own w) \<Rightarrow> Num (s + w * value) | _ \<Rightarrow> NaN)"

text \<open>
  \<open>calculateScore\<close> reads the module's table \<open>weights\<close>. The body is modelled with the
  table as a parameter, and \<open>calculateScore\<close> is the body at \<open>weights\<close>. In the second
  \<open>reduce\<close> the key \<open>k\<close> comes from \<open>Object.keys(weights)\<close>, so \<open>weights[k]\<close> is an own
  property.
\<close>

definition calculateScoreWith :: "(string \<times> rat) list \<Rightarrow> (string \<times> rat) list \<Rightarrow> number" where
  "calculateScoreWith weightTable metrics =
     (let weightedSum = foldl (\<lambda>sum (key, value).
                           case getProperty weightTable key of
                             Some p \<Rightarrow> addProduct sum p value
                           | None \<Rightarrow> sum)
                         (Num 0) metrics;
          totalWeight = foldl (\<lambda>sum k. sum + the (map_of weightTable k)) 0
                          (map fst weightTable)
      in if totalWeight > 0
         then (case weightedSum of Num s \<Rightarrow> Num ((s / totalWeight) * 100) | NaN \<Rightarrow> NaN)
         else Num 0)"

definition calculateScore :: "(string \<times> rat) list \<Rightarrow> number" where
  "calculateScore metrics = calculateScoreWith weights metrics"

section \<open>One file through the engine\<close>

record ScoreResult =
  "file" :: string
  score :: number
  metrics :: "(string \<times> rat) list"
  suggestions :: "string list"

text \<open>
  The callback of \<open>files.map\<close> in \<^verbatim>\<open>index.ts\<close>, from the parsed file on: the ten
  metrics in the order the object literal evaluates them, then the score and the
  suggestions. An exception in a metric function ends the run.
\<close>

definition analyseFile :: "string \<Rightarrow> Node \<Rightarrow> error + ScoreResult" where
  "analyseFile path sourceFile =
     (let avoidAny = calculateAvoidAny sourceFile;
          returnTypes = calculateReturnTypes sourceFile
      in case calculateAccessModifiers sourceFile of
           Inl e \<Rightarrow> Inl e
         | Inr accessModifiers \<Rightarrow>
       (case calculateComplexity sourceFile of
           Inl e \<Rightarrow> Inl e
         | Inr complexity \<Rightarrow>
       (let nesting = calculateNesting sourceFile;
            preferConst = calculatePreferConst sourceFile;
            avoidAssertions = calculateAvoidAssertions sourceFile
        in case calculateUseReadonly sourceFile of
           Inl e \<Rightarrow> Inl e
         | Inr useReadonly \<Rightarrow>
       (let avoidVar = calculateAvoidVar sourceFile
        in case calculateOptionalChaining sourceFile of
           Inl e \<Rightarrow> Inl e
         | Inr optionalChaining \<Rightarrow>
       (let metricSet =
              [(''avoidAny'', avoidAny), (''returnTypes'', returnTypes),
               (''accessModifiers'', accessModifiers), (''complexity'', complexity),
               (''nesting'', nesting), (''preferConst'', preferConst),
               (''avoidAssertions'', avoidAssertions), (''useReadonly'', useReadonly),
               (''avoidVar'', avoidVar), (''optionalChaining'', optionalChaining)]
        in Inr \<lparr>file = path, score = calculateScore metricSet, metrics = metricSet,
                 suggestions = generateSuggestions metricSet\<rparr>)))))"

section \<open>Example files\<close>

text \<open>
  The example trees are the parser's trees of the texts given. They leave out the
  punctuation and keyword tokens that only \<open>getChildren()\<close> lists, whose kinds no
  function searches for. \<open>plain\<close> is a node on which no function reads an accessor, a
  flag or a declaration property.
\<close>

definition plain :: "SyntaxKind \<Rightarrow> Node list \<Rightarrow> Node" where
  "plain k cs = Node k 0 None None None None False False False cs []"

text \<open>The empty file: no statement, only the end-of-file token.\<close>

definition emptyFile :: Node where
  "emptyFile = plain SourceFile [plain EndOfFileToken []]"

text \<open>\<^verbatim>\<open>function f(a: any): any { if (a) { return a; } }\<close>\<close>

definition scenarioFile :: Node where
  "scenarioFile = plain SourceFile
     [Node FunctionDeclaration 0 None None None (Some (plain AnyKeyword [])) False True False
        [plain Identifier [],
         plain Parameter [plain Identifier [], plain AnyKeyword []],
         plain AnyKeyword [],
         plain Block
           [plain IfStatement
              [plain Identifier [],
               plain Block [plain ReturnStatement [plain Identifier []]]]]] [],
      plain EndOfFileToken []]"

text \<open>\<^verbatim>\<open>type T = [Foo, any, any];\<close>\<close>

definition twoAnyFile :: Node where
  "twoAnyFile = plain SourceFile
     [plain TypeAliasDeclaration
        [plain Identifier [],
         plain TupleType
           [plain TypeReference [plain Identifier []],
            plain AnyKeyword [], plain AnyKeyword []]],
      plain EndOfFileToken []]"

text \<open>\<^verbatim>\<open>a!; b!;\<close>\<close>

definition twoNonNullFile :: Node where
  "twoNonNullFile = plain SourceFile
     [plain ExpressionStatement [plain NonNullExpression [plain Identifier []]],
      plain ExpressionStatement [plain NonNullExpression [plain Identifier []]],
      plain EndOfFileToken []]"

text \<open>\<^verbatim>\<open>type T = [Foo, any, any, any, any, any, any, any, any, any, any];\<close>\<close>

definition tenAnyFile :: Node where
  "tenAnyFile = plain SourceFile
     [plain TypeAliasDeclaration
        [plain Identifier [],
         plain TupleType
           (plain TypeReference [plain Identifier []] # replicate 10 (plain AnyKeyword []))],
      plain EndOfFileToken []]"

text \<open>\<^verbatim>\<open>var x;\<close>, and \<^verbatim>\<open>var x; const y = x;\<close>\<close>

definition varFile :: Node where
  "varFile = plain SourceFile
     [plain VariableStatement
        [Node VariableDeclarationList 0 None None None None False False False
           [plain VariableDeclaration [plain Identifier []]] []],
      plain EndOfFileToken []]"

definition varConstFile :: Node where
  "varConstFile = plain SourceFile
     [plain VariableStatement
        [Node VariableDeclarationList 0 None None None None False False False
           [plain VariableDeclaration [plain Identifier []]] []],
      plain VariableStatement
        [Node VariableDeclarationList NodeFlags_Const None None None None False False False
           [plain VariableDeclaration [plain Identifier [], plain Identifier []]] []],
      plain EndOfFileToken []]"

text \<open>\<^verbatim>\<open>class C { static {} public x = y; }\<close>: a static block has no \<open>getModifiers\<close>.\<close>

definition staticBlockFile :: Node where
  "staticBlockFile = plain SourceFile
     [plain ClassDeclaration
        [plain Identifier [],
         plain ClassStaticBlockDeclaration [plain Block []],
         Node PropertyDeclaration 0 (Some [plain PublicKeyword []]) None
           (Some \<lparr>isReadonly = Some False\<rparr>) None False False False
           [plain PublicKeyword [], plain Identifier [], plain Identifier []] []],
      plain EndOfFileToken []]"

text \<open>
  \<^verbatim>\<open>function f(a: string): string; function f(a: number): number;
  function f(a: any) { if (a) { return a; } }\<close>: two overload signatures and the
  implementation, which has no return type.
\<close>

definition overloadFile :: Node where
  "overloadFile = plain SourceFile
     [Node FunctionDeclaration 0 None None None (Some (plain (OtherToken 0) []))
        False False False
        [plain Identifier [],
         plain Parameter [plain Identifier [], plain (OtherToken 0) []],
         plain (OtherToken 0) []] [],
      Node FunctionDeclaration 0 None None None (Some (plain (OtherToken 1) []))
        False False False
        [plain Identifier [],
         plain Parameter [plain Identifier [], plain (OtherToken 1) []],
         plain (OtherToken 1) []] [],
      Node FunctionDeclaration 0 None None None None False True False
        [plain Identifier [],
         plain Parameter [plain Identifier [], plain AnyKeyword []],
         plain Block
           [plain IfStatement
              [plain Identifier [],
               plain Block [plain ReturnStatement [plain Identifier []]]]]] [],
      plain EndOfFileToken []]"

text \<open>
  \<^verbatim>\<open>class C { public m(a: string): void; public m(a: any): void {} y; }\<close>: the
  overload signature of the method is not a member.
\<close>

definition methodOverloadFile :: Node where
  "methodOverloadFile = plain SourceFile
     [plain ClassDeclaration
        [plain Identifier [],
         Node MethodDeclaration 0 (Some [plain PublicKeyword []]) None None
           (Some (plain (OtherToken 2) [])) False False False
           [plain PublicKeyword [], plain Identifier [],
            plain Parameter [plain Identifier [], plain (OtherToken 0) []],
            plain (OtherToken 2) []] [],
         Node MethodDeclaration 0 (Some [plain PublicKeyword []]) None None
           (Some (plain (OtherToken 2) [])) False True False
           [plain PublicKeyword [], plain Identifier [],
            plain Parameter [plain Identifier [], plain AnyKeyword []],
            plain (OtherToken 2) [], plain Block []] [],
         Node PropertyDeclaration 0 (Some []) None
           (Some \<lparr>isReadonly = Some False\<rparr>) None False False False
           [plain Identifier []] []],
      plain EndOfFileToken []]"

text \<open>
  \<^verbatim>\<open>/** @type {any} */ let x: Foo;\<close>: the JSDoc comment is a child of the statement
  that only \<open>getChildren()\<close> lists.
\<close>

definition jsDocAnyFile :: Node where
  "jsDocAnyFile = plain SourceFile
     [Node VariableStatement 0 None None None None False False False
        [Node VariableDeclarationList NodeFlags_Let None None None None False False False
           [plain VariableDeclaration
              [plain Identifier [], plain TypeReference [plain Identifier []]]] []]
        [plain (JSDocKind 0)
           [plain (JSDocKind 1) [plain Identifier [], plain (JSDocKind 2) [plain AnyKeyword []]]]],
      plain EndOfFileToken []]"

section \<open>The specification's notions\<close>

text \<open>
  The ten metric names in their canonical order, each with its suggestion text, and the
  ratio a metric set gives a name.
\<close>

definition suggestionTable :: "(string \<times> string) list" where
  "suggestionTable =
     [(''avoidAny'', ''Replace `any` with specific types or `unknown`.''),
      (''returnTypes'', ''Add explicit return types to functions.''),
      (''accessModifiers'', ''Add access modifiers (public/private) to class members.''),
      (''complexity'', ''Simplify functions with high complexity by extracting logic.''),
      (''nesting'', ''Reduce nesting with early returns or function extraction.''),
      (''preferConst'', ''Use `const` instead of `let` for non-reassigned variables.''),
      (''avoidAssertions'', ''Replace type assertions with type guards.''),
      (''useReadonly'', ''Mark immutable properties as `readonly`.''),
      (''avoidVar'', ''Replace `var` with `let` or `const`.''),
      (''optionalChaining'',
       ''Use optional chaining (`?.`) and nullish coalescing (`??`) for null checks.'')]"

definition canonicalOrder :: "string list" where
  "canonicalOrder =
     [''avoidAny'', ''returnTypes'', ''accessModifiers'', ''complexity'', ''nesting'',
      ''preferConst'', ''avoidAssertions'', ''useReadonly'', ''avoidVar'', ''optionalChaining'']"

definition ratio :: "(string \<times> rat) list \<Rightarrow> string \<Rightarrow> rat" where
  "ratio metricSet k = the (map_of metricSet k)"

section \<open>Guarded accessor calls never fail\<close>

text \<open>
  Each guarded test answers a boolean on every node; on a node without the accessor it
  answers \<open>False\<close>. The loops and filters built from them therefore end normally, which
  gives a closed form for each of the four metric functions that call an accessor.
\<close>

lemma filterE_Inr:
  "(\<And>x. x \<in> set xs \<Longrightarrow> p x = Inr (q x)) \<Longrightarrow> filterE p xs = Inr (filter q xs)"
  by (induction xs) auto

lemma hasModifiers_Inr:
  "hasModifiers member = Inr (case getModifiers member of None \<Rightarrow> False | Some ms \<Rightarrow> ms \<noteq> [])"
  by (simp add: hasModifiers_def isFunction_def callMethod_def split: option.splits)

lemma operatorTokenIs_Inr:
  "operatorTokenIs kind expr =
     Inr (case getOperatorToken (theNode expr) of None \<Rightarrow> False | Some tok \<Rightarrow> getKind tok = kind)"
  by (simp add: operatorTokenIs_def isFunction_def callMethod_def split: option.splits)

lemma structureIsReadonly_Inr:
  "structureIsReadonly p =
     Inr (case getStructure (theNode p) of None \<Rightarrow> False | Some s \<Rightarrow> isReadonly s = Some True)"
  by (simp add: structureIsReadonly_def isFunction_def callMethod_def split: option.splits)

lemma countMember_Inr:
  "countMember member (a, b) =
     Inr (a + 1, if (case getModifiers member of None \<Rightarrow> False | Some ms \<Rightarrow> ms \<noteq> [])
                 then b + 1 else b)"
  by (simp add: countMember_def hasModifiers_Inr)

lemma forEachE_countMember:
  "forEachE countMember ms (a, b) =
     Inr (a + length ms,
          b + length (filter (\<lambda>m. case getModifiers m of None \<Rightarrow> False | Some x \<Rightarrow> x \<noteq> []) ms))"
  by (induction ms arbitrary: a b) (simp_all add: countMember_Inr)

lemma forEachE_classes:
  "forEachE (\<lambda>cls. forEachE countMember (getMembers cls)) classes (a, b) =
     Inr (a + length (concat (map getMembers classes)),
          b + length (filter (\<lambda>m. case getModifiers m of None \<Rightarrow> False | Some x \<Rightarrow> x \<noteq> [])
                        (concat (map getMembers classes))))"
  by (induction classes arbitrary: a b) (simp_all add: forEachE_countMember)

lemma calculateAccessModifiers_Inr:
  "calculateAccessModifiers sourceFile =
     Inr (let ms = concat (map getMembers (getClasses sourceFile))
          in if getClasses sourceFile = [] \<or> ms = [] then 1
             else of_nat (length (filter (\<lambda>m. case getModifiers m of None \<Rightarrow> False
                                                | Some x \<Rightarrow> x \<noteq> []) ms))
                  / of_nat (length ms))"
  by (simp add: calculateAccessModifiers_def forEachE_classes Let_def)

lemma functionComplexity_Inr: "\<exists>c. functionComplexity f = Inr c \<and> 1 \<le> c"
  by (simp add: functionComplexity_def Let_def
        filterE_Inr [where q = "\<lambda>e. case getOperatorToken (theNode e) of
            None \<Rightarrow> False | Some tok \<Rightarrow> getKind tok = AmpersandAmpersandToken"]
        filterE_Inr [where q = "\<lambda>e. case getOperatorToken (theNode e) of
            None \<Rightarrow> False | Some tok \<Rightarrow> getKind tok = BarBarToken"]
        operatorTokenIs_Inr)

lemma forEachE_complexity:
  "\<exists>t. forEachE (\<lambda>f totalComplexity.
            case functionComplexity f of
              Inl e \<Rightarrow> Inl e
            | Inr complexity \<Rightarrow> Inr (totalComplexity + complexity)) fs s = Inr t \<and>
        s + length fs \<le> t"
proof (induction fs arbitrary: s)
  case Nil
  then show ?case by simp
next
  case (Cons f fs)
  obtain c where c: "functionComplexity f = Inr c" "1 \<le> c"
    using functionComplexity_Inr by blast
  from Cons.IH [of "s + c"] obtain t where
    "forEachE (\<lambda>f totalComplexity.
            case functionComplexity f of
              Inl e \<Rightarrow> Inl e
            | Inr complexity \<Rightarrow> Inr (totalComplexity + complexity)) fs (s + c) = Inr t"
    "s + c + length fs \<le> t"
    by blast
  with c show ?case by simp
qed

lemma calculateComplexity_Inr:
  "\<exists>r. calculateComplexity sourceFile = Inr r \<and> 0 \<le> r \<and> r \<le> 1"
proof (cases "getFunctions sourceFile = []")
  case True
  then show ?thesis by (simp add: calculateComplexity_def)
next
  case False
  obtain t where t: "forEachE (\<lambda>f totalComplexity.
            case functionComplexity f of
              Inl e \<Rightarrow> Inl e
            | Inr complexity \<Rightarrow> Inr (totalComplexity + complexity))
          (getFunctions sourceFile) 0 = Inr t"
      "length (getFunctions sourceFile) \<le> t"
    using forEachE_complexity [of "getFunctions sourceFile" 0] by auto
  have "(1::rat) \<le> of_nat t / of_nat (length (getFunctions sourceFile))"
    using t(2) False by (simp add: le_divide_eq)
  then show ?thesis
    using t(1) False by (simp add: calculateComplexity_def Let_def)
qed

lemma calculateUseReadonly_Inr:
  "calculateUseReadonly sourceFile =
     Inr (let properties = getDescendantsOfKind PropertyDeclaration sourceFile
          in if properties = [] then 1
             else of_nat (length (filter (\<lambda>p. case getStructure (theNode p) of None \<Rightarrow> False
                                   | Some s \<Rightarrow> isReadonly s = Some True) properties))
                  / of_nat (length properties))"
  by (simp add: calculateUseReadonly_def Let_def structureIsReadonly_Inr
        filterE_Inr [where q = "\<lambda>p. case getStructure (theNode p) of None \<Rightarrow> False
                                   | Some s \<Rightarrow> isReadonly s = Some True"])

lemma forEachE_manualNullChecks:
  "forEachE (\<lambda>e manualNullChecks.
                case operatorTokenIs AmpersandAmpersandToken e of
                  Inl err \<Rightarrow> Inl err
                | Inr b \<Rightarrow> Inr (if b then manualNullChecks + 1 else manualNullChecks)) es n =
     Inr (n + length (filter (\<lambda>e. case getOperatorToken (theNode e) of None \<Rightarrow> False
                                    | Some tok \<Rightarrow> getKind tok = AmpersandAmpersandToken) es))"
  by (induction es arbitrary: n) (simp_all add: operatorTokenIs_Inr)

lemma calculateOptionalChaining_Inr:
  "calculateOptionalChaining sourceFile =
     Inr (let manualNullChecks = length (filter (\<lambda>e. case getOperatorToken (theNode e) of
                None \<Rightarrow> False | Some tok \<Rightarrow> getKind tok = AmpersandAmpersandToken)
                (getDescendantsOfKind BinaryExpression sourceFile));
              modernOperators = length (getDescendantsOfKind QuestionDotToken sourceFile)
                + length (getDescendantsOfKind QuestionQuestionToken sourceFile)
          in if manualNullChecks + modernOperators = 0 then 0
             else of_nat modernOperators / of_nat (manualNullChecks + modernOperators))"
  by (simp add: calculateOptionalChaining_def forEachE_manualNullChecks Let_def)

lemma analyseFile_Inr: "\<exists>r. analyseFile path sourceFile = Inr r"
proof -
  obtain c where c: "calculateComplexity sourceFile = Inr c"
    using calculateComplexity_Inr by blast
  show ?thesis
    by (simp add: analyseFile_def Let_def c calculateAccessModifiers_Inr
          calculateUseReadonly_Inr calculateOptionalChaining_Inr)
qed

text \<open>
  Claim C9. Every metric function tolerates nodes that lack a kind-specific accessor: the
  four functions that call one (\<open>getModifiers\<close>, \<open>getOperatorToken\<close>, \<open>getStructure\<close>)
  return a value on every tree, so does the whole analysis of a file, and a node without
  the accessor is treated as not matching (the guarded test answers \<open>false\<close>). The other
  six functions call no accessor that can be missing.
\<close>

theorem missing_accessors_tolerated:
  "(\<exists>r. calculateAccessModifiers sourceFile = Inr r) \<and>
   (\<exists>r. calculateComplexity sourceFile = Inr r) \<and>
   (\<exists>r. calculateUseReadonly sourceFile = Inr r) \<and>
   (\<exists>r. calculateOptionalChaining sourceFile = Inr r) \<and>
   (\<exists>r. analyseFile path sourceFile = Inr r) \<and>
   (getModifiers member = None \<longrightarrow> hasModifiers member = Inr False) \<and>
   (getOperatorToken (theNode expr) = None \<longrightarrow> operatorTokenIs kind expr = Inr False) \<and>
   (getStructure (theNode p) = None \<longrightarrow> structureIsReadonly p = Inr False)"
proof -
  obtain c where c: "calculateComplexity sourceFile = Inr c"
    using calculateComplexity_Inr by blast
  show ?thesis
    using c analyseFile_Inr [of path sourceFile]
    by (simp add: calculateAccessModifiers_Inr calculateUseReadonly_Inr
          calculateOptionalChaining_Inr hasModifiers_Inr operatorTokenIs_Inr
          structureIsReadonly_Inr)
qed

theorem missing_accessors_tolerated_witness:
  "calculateAccessModifiers staticBlockFile = Inr (1 / 2) \<and>
   hasModifiers (plain ClassStaticBlockDeclaration [plain Block []]) = Inr False \<and>
   operatorTokenIs AmpersandAmpersandToken (emptyFile, plain BinaryExpression []) = Inr False \<and>
   structureIsReadonly (emptyFile, plain PropertyDeclaration []) = Inr False"
proof -
  have a: "calculateAccessModifiers staticBlockFile = Inr (1 / 2)"
    by code_simp
  have b: "getModifiers (plain ClassStaticBlockDeclaration [plain Block []]) = None"
    "getOperatorToken (theNode (emptyFile, plain BinaryExpression [])) = None"
    "getStructure (theNode (emptyFile, plain PropertyDeclaration [])) = None"
    by (simp_all add: plain_def theNode_def)
  show ?thesis
    using a b missing_accessors_tolerated
      [of staticBlockFile "''c.ts''" "plain ClassStaticBlockDeclaration [plain Block []]"
          "(emptyFile, plain BinaryExpression [])" AmpersandAmpersandToken
          "(emptyFile, plain PropertyDeclaration [])"]
    by simp
qed

section \<open>The score as a weighted sum\<close>

lemma weightedSum_NaN:
  "foldl (\<lambda>sum (key, value).
            case getProperty w key of Some p \<Rightarrow> addProduct sum p value | None \<Rightarrow> sum) NaN m = NaN"
  by (induction m) (auto simp: addProduct_def split: option.splits)

lemma weightedSum_inherited:
  assumes "\<exists>k \<in> fst ` set m. k \<in> set objectPrototypeNames \<and> k \<notin> fst ` set w"
  shows "foldl (\<lambda>sum (key, value).
            case getProperty w key of Some p \<Rightarrow> addProduct sum p value | None \<Rightarrow> sum) acc m = NaN"
  using assms
proof (induction m arbitrary: acc)
  case Nil
  then show ?case by simp
next
  case (Cons x m)
  obtain key v where x: "x = (key, v)" by (cases x)
  show ?case
  proof (cases "key \<in> set objectPrototypeNames \<and> key \<notin> fst ` set w")
    case True
    then have "getProperty w key = Some Inherited"
      by (simp add: getProperty_def map_of_eq_None_iff [THEN iffD2])
    then show ?thesis
      by (cases acc) (simp_all add: x addProduct_def weightedSum_NaN)
  next
    case False
    with Cons.prems x
    have "\<exists>k \<in> fst ` set m. k \<in> set objectPrototypeNames \<and> k \<notin> fst ` set w"
      by auto
    from Cons.IH [OF this] show ?thesis by simp
  qed
qed

lemma weightedSum_Num:
  assumes "\<forall>k \<in> fst ` set m. k \<in> set objectPrototypeNames \<longrightarrow> k \<in> fst ` set w"
  shows "foldl (\<lambda>sum (key, value).
            case getProperty w key of Some p \<Rightarrow> addProduct sum p value | None \<Rightarrow> sum) (Num a) m =
         Num (a + sum_list (map (\<lambda>(key, value).
                 case map_of w key of Some x \<Rightarrow> x * value | None \<Rightarrow> 0) m))"
  using assms
proof (induction m arbitrary: a)
  case Nil
  then show ?case by simp
next
  case (Cons x m)
  obtain key v where x: "x = (key, v)" by (cases x)
  have rest: "\<forall>k \<in> fst ` set m. k \<in> set objectPrototypeNames \<longrightarrow> k \<in> fst ` set w"
    using Cons.prems by simp
  show ?case
  proof (cases "map_of w key")
    case None
    then have "key \<notin> fst ` set w" by (simp add: map_of_eq_None_iff)
    with Cons.prems x have "key \<notin> set objectPrototypeNames" by auto
    with None have "getProperty w key = None" by (simp add: getProperty_def)
    with None show ?thesis using Cons.IH [OF rest, of a] by (simp add: x)
  next
    case (Some y)
    then have "getProperty w key = Some (Own y)" by (simp add: getProperty_def)
    with Some show ?thesis
      using Cons.IH [OF rest, of "a + y * v"] by (simp add: x addProduct_def algebra_simps)
  qed
qed

lemma totalWeight_sum_list:
  "foldl (\<lambda>sum k. sum + f k) a ks = a + sum_list (map f ks)" for a :: rat
  by (induction ks arbitrary: a) auto

lemma sum_list_over_keys:
  fixes g :: "'k \<times> 'v \<Rightarrow> rat"
  assumes "distinct (map fst m)"
  shows "sum_list (map g m) = (\<Sum>k \<in> fst ` set m. g (k, the (map_of m k)))"
proof -
  have "\<And>x. x \<in> set m \<Longrightarrow> g x = g (fst x, the (map_of m (fst x)))"
    using assms by (auto simp: map_of_eq_Some_iff [THEN iffD2])
  then have eq: "map g m = map (\<lambda>k. g (k, the (map_of m k))) (map fst m)"
    by (simp add: o_def)
  have "sum_list (map g m) = sum_list (map (\<lambda>k. g (k, the (map_of m k))) (map fst m))"
    by (rule arg_cong [where f = sum_list, OF eq])
  also have "\<dots> = (\<Sum>k \<in> set (map fst m). g (k, the (map_of m k)))"
    using assms by (rule sum_list_distinct_conv_sum_set)
  finally show ?thesis by simp
qed

lemma weightedSum_restricted:
  fixes w m :: "('k \<times> rat) list"
  assumes "distinct (map fst m)"
  shows "sum_list (map (\<lambda>(key, value). case map_of w key of Some x \<Rightarrow> x * value | None \<Rightarrow> 0) m) =
         (\<Sum>k \<in> fst ` set m \<inter> fst ` set w. the (map_of w k) * the (map_of m k))"
proof -
  have "sum_list (map (\<lambda>(key, value). case map_of w key of Some x \<Rightarrow> x * value | None \<Rightarrow> 0) m) =
        (\<Sum>k \<in> fst ` set m. case map_of w k of Some x \<Rightarrow> x * the (map_of m k) | None \<Rightarrow> 0)"
    by (subst sum_list_over_keys [OF assms]) simp
  also have "\<dots> = (\<Sum>k \<in> fst ` set m.
                      if k \<in> fst ` set w then the (map_of w k) * the (map_of m k) else 0)"
    by (rule sum.cong)
       (auto simp: dom_map_of_conv_image_fst [symmetric] domIff split: option.splits)
  also have "\<dots> = (\<Sum>k \<in> fst ` set m \<inter> fst ` set w. the (map_of w k) * the (map_of m k))"
    by (simp add: sum.inter_restrict)
  finally show ?thesis .
qed

text \<open>
  What \<open>calculateScore\<close> computes on every record: with a positive total weight, \<open>NaN\<close>
  when the record has a name that the table inherits and does not own, and otherwise
  the weighted sum over the shared names divided by the sum of all the weights of the
  table, times 100.
\<close>

lemma calculateScoreWith_closed_form:
  assumes "distinct (map fst m)" and "distinct (map fst w)"
  shows "calculateScoreWith w m =
           (if 0 < (\<Sum>k \<in> fst ` set w. the (map_of w k))
            then (if \<exists>k \<in> fst ` set m. k \<in> set objectPrototypeNames \<and> k \<notin> fst ` set w
                  then NaN
                  else Num ((\<Sum>k \<in> fst ` set m \<inter> fst ` set w.
                               the (map_of w k) * the (map_of m k))
                            / (\<Sum>k \<in> fst ` set w. the (map_of w k)) * 100))
            else Num 0)"
proof -
  have total: "sum_list (map (\<lambda>k. the (map_of w k)) (map fst w)) =
        (\<Sum>k \<in> set (map fst w). the (map_of w k))"
    using assms(2) by (rule sum_list_distinct_conv_sum_set)
  show ?thesis
  proof (cases "\<exists>k \<in> fst ` set m. k \<in> set objectPrototypeNames \<and> k \<notin> fst ` set w")
    case True
    then show ?thesis
      using total
      by (simp add: calculateScoreWith_def Let_def totalWeight_sum_list
            weightedSum_inherited [OF True])
  next
    case False
    then have ok: "\<forall>k \<in> fst ` set m. k \<in> set objectPrototypeNames \<longrightarrow> k \<in> fst ` set w"
      by blast
    show ?thesis
      using total False
      by (auto simp: calculateScoreWith_def Let_def totalWeight_sum_list
            weightedSum_Num [OF ok] weightedSum_restricted [OF assms(1)])
  qed
qed

text \<open>
  Outside the metric sets: a record that lacks a weighted name is still divided by the
  whole table, and a record with an inherited name gets \<open>NaN\<close>.
\<close>

lemma score_of_other_records:
  "calculateScore [(''avoidAny'', 1)] = Num 10 \<and>
   calculateScore [(''toString'', 1)] = NaN \<and>
   calculateScore [(''avoidAny'', 1), (''constructor'', 0)] = NaN"
  by code_simp



section \<open>The suggestions\<close>

lemma push_if: "(if b then s @ [t] else s) = s @ (if b then [t] else [])"
  by simp

lemma filter_Cons_if: "filter P (x # xs) = (if P x then [x] else []) @ filter P xs"
  by simp

lemma map_if_single: "map f (if b then [x] else []) = (if b then [f x] else [])"
  by simp

lemma generateSuggestions_table:
  "generateSuggestions m = map snd (filter (\<lambda>(k, t). lessThanOne m k) suggestionTable)"
  unfolding generateSuggestions_def suggestionTable_def
  by (simp only: Let_def push_if filter_Cons_if filter.simps(1) map_append map_if_single
        list.map(1) prod.case snd_conv append_Nil append_Nil2 append_assoc)

lemma canonicalOrder_table: "map fst suggestionTable = canonicalOrder"
  by (simp add: suggestionTable_def canonicalOrder_def)

lemma filter_table_keys:
  "map fst (filter (\<lambda>(k, t). P k) suggestionTable) = filter P canonicalOrder"
  unfolding canonicalOrder_table [symmetric] by (simp add: filter_map o_def case_prod_unfold)

text \<open>
  Claim C4. For a metric set that has all ten metrics, \<open>generateSuggestions\<close> returns the
  texts of the metrics whose ratio is strictly below 1, one for each, in the canonical
  order of the ten names; its length is the number of metrics below 1; and, the ratios
  being at most 1, it is empty exactly when every metric is 1.
\<close>

theorem suggestions_below_one:
  assumes present: "\<forall>k \<in> set canonicalOrder. map_of m k \<noteq> None"
  shows "generateSuggestions m = map snd (filter (\<lambda>(k, t). ratio m k < 1) suggestionTable) \<and>
         map fst suggestionTable = canonicalOrder \<and>
         length (generateSuggestions m) = length (filter (\<lambda>k. ratio m k < 1) canonicalOrder) \<and>
         ((\<forall>k \<in> set canonicalOrder. ratio m k \<le> 1) \<longrightarrow>
            (generateSuggestions m = [] \<longleftrightarrow> (\<forall>k \<in> set canonicalOrder. ratio m k = 1)))"
proof -
  have lt: "lessThanOne m k = (ratio m k < 1)" if "k \<in> set canonicalOrder" for k
    using present that by (auto simp: lessThanOne_def ratio_def)
  have key: "a \<in> set canonicalOrder" if "(a, b) \<in> set suggestionTable" for a b
  proof -
    from that have "fst (a, b) \<in> fst ` set suggestionTable" by (rule imageI)
    then show ?thesis by (simp add: canonicalOrder_table [symmetric])
  qed
  have "filter (\<lambda>(k, t). lessThanOne m k) suggestionTable =
        filter (\<lambda>(k, t). ratio m k < 1) suggestionTable"
    by (rule filter_cong) (auto simp: lt key)
  then have eq: "generateSuggestions m =
        map snd (filter (\<lambda>(k, t). ratio m k < 1) suggestionTable)"
    by (simp add: generateSuggestions_table)
  have len: "length (generateSuggestions m) =
        length (filter (\<lambda>k. ratio m k < 1) canonicalOrder)"
    unfolding eq filter_table_keys [symmetric] by simp
  have "generateSuggestions m = [] \<longleftrightarrow> (\<forall>k \<in> set canonicalOrder. ratio m k = 1)"
    if "\<forall>k \<in> set canonicalOrder. ratio m k \<le> 1"
  proof -
    have "generateSuggestions m = [] \<longleftrightarrow> filter (\<lambda>k. ratio m k < 1) canonicalOrder = []"
      using len by (metis length_0_conv)
    also have "\<dots> \<longleftrightarrow> (\<forall>k \<in> set canonicalOrder. \<not> ratio m k < 1)"
      by (simp add: filter_empty_conv)
    also have "\<dots> \<longleftrightarrow> (\<forall>k \<in> set canonicalOrder. ratio m k = 1)"
      using that by (auto simp: not_less intro: antisym)
    finally show ?thesis .
  qed
  with eq len canonicalOrder_table show ?thesis by blast
qed

theorem suggestions_below_one_witness:
  "generateSuggestions
     [(''avoidAny'', 0), (''returnTypes'', 1), (''accessModifiers'', 1),
      (''complexity'', 4 / 5), (''nesting'', 3 / 4), (''preferConst'', 1),
      (''avoidAssertions'', 1), (''useReadonly'', 1), (''avoidVar'', 1),
      (''optionalChaining'', 1)] =
     [''Replace `any` with specific types or `unknown`.'',
      ''Simplify functions with high complexity by extracting logic.'',
      ''Reduce nesting with early returns or function extraction.'']"
proof -
  let ?m = "[(''avoidAny'', 0 :: rat), (''returnTypes'', 1), (''accessModifiers'', 1),
      (''complexity'', 4 / 5), (''nesting'', 3 / 4), (''preferConst'', 1),
      (''avoidAssertions'', 1), (''useReadonly'', 1), (''avoidVar'', 1),
      (''optionalChaining'', 1)]"
  have p: "\<forall>k \<in> set canonicalOrder. map_of ?m k \<noteq> None"
    by (simp add: canonicalOrder_def del: not_None_eq)
  have "map snd (filter (\<lambda>(k, t). ratio ?m k < 1) suggestionTable) =
     [''Replace `any` with specific types or `unknown`.'',
      ''Simplify functions with high complexity by extracting logic.'',
      ''Reduce nesting with early returns or function extraction.'']"
    by (simp add: suggestionTable_def ratio_def)
  with suggestions_below_one [OF p] show ?thesis by simp
qed

section \<open>Files without functions\<close>

text \<open>
  Claim C6. For a file whose list of functions is empty (in particular a file with no
  function declaration at all), \<open>returnTypes\<close>, \<open>complexity\<close> and \<open>nesting\<close> are each
  exactly 1.
\<close>

theorem no_functions_default:
  assumes "getFunctions sourceFile = []"
  shows "calculateReturnTypes sourceFile = 1 \<and>
         calculateComplexity sourceFile = Inr 1 \<and>
         calculateNesting sourceFile = 1"
  using assms by (simp add: calculateReturnTypes_def calculateComplexity_def calculateNesting_def)

theorem no_functions_default_witness:
  "getFunctions emptyFile = [] \<and> calculateReturnTypes emptyFile = 1 \<and>
   calculateComplexity emptyFile = Inr 1 \<and> calculateNesting emptyFile = 1"
proof -
  have h: "getFunctions emptyFile = []"
    by (simp add: getFunctions_def emptyFile_def plain_def)
  from no_functions_default [OF h] h show ?thesis by simp
qed

lemma getFunctions_descendants:
  "set (getFunctions sourceFile) \<subseteq> theNode ` set (getDescendantsOfKind FunctionDeclaration sourceFile)"
  by (cases sourceFile) (force simp: getFunctions_def getDescendantsOfKind_def theNode_def)

text \<open>
  The lists of the provider on the files with overload signatures and with a JSDoc
  comment: one function, without a return type and of complexity 2; two members, one
  with a modifier; one \<open>any\<close> against one type reference.
\<close>

lemma provider_lists:
  "calculateReturnTypes overloadFile = 0 \<and>
   calculateComplexity overloadFile = Inr (8 / 10) \<and>
   calculateAccessModifiers methodOverloadFile = Inr (1 / 2) \<and>
   calculateAvoidAny jsDocAnyFile = 0"
  by code_simp

lemma no_function_declarations:
  "getDescendantsOfKind FunctionDeclaration sourceFile = [] \<Longrightarrow> getFunctions sourceFile = []"
  using getFunctions_descendants [of sourceFile] by simp

section \<open>Legacy declarations\<close>

lemma neither_flag:
  fixes fl :: "32 word"
  shows "(fl AND (NodeFlags_Let OR NodeFlags_Const) = 0) =
         (fl AND NodeFlags_Let = 0 \<and> fl AND NodeFlags_Const = 0)"
  by (simp add: bit.conj_disj_distrib or_eq_0_iff)

text \<open>
  Claim C7. \<open>avoidVar\<close> is 0 when some variable declaration belongs to a declaration
  list whose flags mark it neither \<open>const\<close> nor \<open>let\<close>, whatever else the file declares,
  and 1 otherwise.
\<close>

theorem avoidVar_binary:
  "calculateAvoidVar sourceFile =
     (if \<exists>v \<in> set (getDescendantsOfKind VariableDeclaration sourceFile).
           getKind (getParent v) = VariableDeclarationList \<and>
           getFlags (getParent v) AND NodeFlags_Const = 0 \<and>
           getFlags (getParent v) AND NodeFlags_Let = 0
      then 0 else 1)"
  by (auto simp add: calculateAvoidVar_def list_ex_iff neither_flag)

theorem avoidVar_binary_witness:
  "calculateAvoidVar varConstFile = 0 \<and> calculateAvoidVar emptyFile = 1"
proof -
  have a: "\<exists>v \<in> set (getDescendantsOfKind VariableDeclaration varConstFile).
           getKind (getParent v) = VariableDeclarationList \<and>
           getFlags (getParent v) AND NodeFlags_Const = 0 \<and>
           getFlags (getParent v) AND NodeFlags_Let = 0"
    by (simp add: varConstFile_def plain_def getDescendantsOfKind_def theNode_def getParent_def
          NodeFlags_Const_def NodeFlags_Let_def)
  have b: "getDescendantsOfKind VariableDeclaration emptyFile = []"
    by (simp add: emptyFile_def plain_def getDescendantsOfKind_def theNode_def)
  show ?thesis
    using avoidVar_binary [of varConstFile] avoidVar_binary [of emptyFile] a b by simp
qed

text \<open>
  Claim C10. For a file whose declaration lists are all \<open>var\<close> lists (there is at least
  one declaration in a list, and no list is marked \<open>const\<close> or \<open>let\<close>), \<open>preferConst\<close>
  is 1, since neither its numerator nor its denominator counts a \<open>var\<close>, while
  \<open>avoidVar\<close> is 0.
\<close>

theorem only_var_declarations:
  assumes some: "\<exists>v \<in> set (getDescendantsOfKind VariableDeclaration sourceFile).
                   getKind (getParent v) = VariableDeclarationList"
    and all_var: "\<forall>v \<in> set (getDescendantsOfKind VariableDeclaration sourceFile).
                   getKind (getParent v) = VariableDeclarationList \<longrightarrow>
                   getFlags (getParent v) AND NodeFlags_Const = 0 \<and>
                   getFlags (getParent v) AND NodeFlags_Let = 0"
  shows "calculatePreferConst sourceFile = 1 \<and> calculateAvoidVar sourceFile = 0"
proof -
  have lets: "filter (\<lambda>v. getKind (getParent v) = VariableDeclarationList \<and>
                            getFlags (getParent v) AND NodeFlags_Let \<noteq> 0)
                   (getDescendantsOfKind VariableDeclaration sourceFile) = []"
    using all_var by (auto simp: filter_empty_conv)
  have cs: "filter (\<lambda>v. getKind (getParent v) = VariableDeclarationList \<and>
                            getFlags (getParent v) AND NodeFlags_Const \<noteq> 0)
                   (getDescendantsOfKind VariableDeclaration sourceFile) = []"
    using all_var by (auto simp: filter_empty_conv)
  have "calculatePreferConst sourceFile = 1"
    by (simp add: calculatePreferConst_def lets cs)
  moreover have "calculateAvoidVar sourceFile = 0"
    using some all_var by (auto simp: calculateAvoidVar_def list_ex_iff neither_flag)
  ultimately show ?thesis by simp
qed

theorem only_var_declarations_witness:
  "calculatePreferConst varFile = 1 \<and> calculateAvoidVar varFile = 0"
proof -
  have d: "getDescendantsOfKind VariableDeclaration varFile =
     [(Node VariableDeclarationList 0 None None None None False False False
           [plain VariableDeclaration [plain Identifier []]] [],
       plain VariableDeclaration [plain Identifier []])]"
    by (simp add: varFile_def plain_def getDescendantsOfKind_def theNode_def)
  show ?thesis
    by (rule only_var_declarations)
       (simp_all add: d getParent_def NodeFlags_Const_def NodeFlags_Let_def)
qed

section \<open>The scenario file\<close>

text \<open>
  Claim C5. For the file \<^verbatim>\<open>function f(a: any): any { if (a) { return a; } }\<close> the metric
  \<open>avoidAny\<close> is strictly below 1 (two \<open>any\<close> nodes, no type reference), \<open>returnTypes\<close>
  is 1, \<open>complexity\<close> is \<open>max(0, 1 - (2 - 1) / 5) = 0.8\<close> (the one function has complexity
  2: the base 1 and one \<open>if\<close>), and \<open>nesting\<close> is \<open>1 - 1 / 4 = 0.75\<close> (the deepest
  nesting is 1).
\<close>

theorem scenario_file_metrics:
  "calculateAvoidAny scenarioFile < 1 \<and>
   length (getDescendantsOfKind AnyKeyword scenarioFile) = 2 \<and>
   length (getDescendantsOfKind TypeReference scenarioFile) = 0 \<and>
   calculateReturnTypes scenarioFile = 1 \<and>
   map functionComplexity (getFunctions scenarioFile) = [Inr 2] \<and>
   calculateComplexity scenarioFile = Inr (max 0 (1 - (2 - 1) / 5)) \<and>
   calculateComplexity scenarioFile = Inr (8 / 10) \<and>
   map (\<lambda>f. getNesting f 0) (getFunctions scenarioFile) = [1] \<and>
   calculateNesting scenarioFile = 1 - 1 / 4 \<and>
   calculateNesting scenarioFile = 75 / 100"
  by code_simp

section \<open>The empty file\<close>

text \<open>
  Claim C2 says that on the empty file every metric is 1, the score is 100 and there is
  no suggestion. The code does not do that: \<open>calculateOptionalChaining\<close> divides
  \<open>modernOperators = 0\<close> by the fallback denominator 1 and answers 0, so the score is 90
  and one suggestion is given. The other nine metrics are 1.
\<close>

theorem empty_file_result:
  "analyseFile ''empty.ts'' emptyFile =
     Inr \<lparr>file = ''empty.ts'', score = Num 90,
          metrics = [(''avoidAny'', 1), (''returnTypes'', 1), (''accessModifiers'', 1),
             (''complexity'', 1), (''nesting'', 1), (''preferConst'', 1),
             (''avoidAssertions'', 1), (''useReadonly'', 1), (''avoidVar'', 1),
             (''optionalChaining'', 0)],
          suggestions =
            [''Use optional chaining (`?.`) and nullish coalescing (`??`) for null checks.'']\<rparr>"
  by code_simp

section \<open>The range of the metrics and of the score\<close>

text \<open>
  Eight of the ten metrics are in \<open>[0,1]\<close> on every tree, the other two are at most 1,
  and a metric set with ratios in \<open>[0,1]\<close> and no inherited name gets a score in
  \<open>[0,100]\<close> under any table of weights that are not negative.
\<close>

lemma quotient_range:
  "a \<le> b \<Longrightarrow> 0 \<le> (of_nat a / of_nat b :: rat) \<and> (of_nat a / of_nat b :: rat) \<le> 1"
  by (cases "b = 0") (simp_all add: divide_le_eq)

lemma calculateReturnTypes_range:
  "0 \<le> calculateReturnTypes sourceFile \<and> calculateReturnTypes sourceFile \<le> 1"
  using quotient_range [OF length_filter_le
      [of "\<lambda>f. getReturnTypeNode f \<noteq> None" "getFunctions sourceFile"]]
  by (simp add: calculateReturnTypes_def Let_def)

lemma calculateAccessModifiers_range:
  "\<exists>r. calculateAccessModifiers sourceFile = Inr r \<and> 0 \<le> r \<and> r \<le> 1"
  using quotient_range [OF length_filter_le
      [of "\<lambda>m. case getModifiers m of None \<Rightarrow> False | Some x \<Rightarrow> x \<noteq> []"
          "concat (map getMembers (getClasses sourceFile))"]]
  by (simp add: calculateAccessModifiers_Inr Let_def)

lemma calculateNesting_range:
  "0 \<le> calculateNesting sourceFile \<and> calculateNesting sourceFile \<le> 1"
  by (simp add: calculateNesting_def Let_def)

lemma calculatePreferConst_range:
  "0 \<le> calculatePreferConst sourceFile \<and> calculatePreferConst sourceFile \<le> 1"
  using quotient_range [of "length (filter (\<lambda>v. getKind (getParent v) = VariableDeclarationList \<and>
                            getFlags (getParent v) AND NodeFlags_Const \<noteq> 0)
                   (getDescendantsOfKind VariableDeclaration sourceFile))"
         "length (filter (\<lambda>v. getKind (getParent v) = VariableDeclarationList \<and>
                            getFlags (getParent v) AND NodeFlags_Let \<noteq> 0)
                   (getDescendantsOfKind VariableDeclaration sourceFile)) +
          length (filter (\<lambda>v. getKind (getParent v) = VariableDeclarationList \<and>
                            getFlags (getParent v) AND NodeFlags_Const \<noteq> 0)
                   (getDescendantsOfKind VariableDeclaration sourceFile))"]
  by (simp add: calculatePreferConst_def Let_def)

lemma calculateUseReadonly_range:
  "\<exists>r. calculateUseReadonly sourceFile = Inr r \<and> 0 \<le> r \<and> r \<le> 1"
  using quotient_range [OF length_filter_le
      [of "\<lambda>p. case getStructure (theNode p) of None \<Rightarrow> False
                                   | Some s \<Rightarrow> isReadonly s = Some True"
          "getDescendantsOfKind PropertyDeclaration sourceFile"]]
  by (simp add: calculateUseReadonly_Inr Let_def)

lemma calculateAvoidVar_range:
  "0 \<le> calculateAvoidVar sourceFile \<and> calculateAvoidVar sourceFile \<le> 1"
  by (simp add: calculateAvoidVar_def)

lemma calculateOptionalChaining_range:
  "\<exists>r. calculateOptionalChaining sourceFile = Inr r \<and> 0 \<le> r \<and> r \<le> 1"
  using quotient_range [of "length (getDescendantsOfKind QuestionDotToken sourceFile)
                + length (getDescendantsOfKind QuestionQuestionToken sourceFile)"
      "length (filter (\<lambda>e. case getOperatorToken (theNode e) of
                None \<Rightarrow> False | Some tok \<Rightarrow> getKind tok = AmpersandAmpersandToken)
                (getDescendantsOfKind BinaryExpression sourceFile)) +
       (length (getDescendantsOfKind QuestionDotToken sourceFile)
                + length (getDescendantsOfKind QuestionQuestionToken sourceFile))"]
  by (simp add: calculateOptionalChaining_Inr Let_def)

lemma calculateAvoidAny_le_one: "calculateAvoidAny sourceFile \<le> 1"
  by (simp add: calculateAvoidAny_def Let_def)

lemma calculateAvoidAssertions_le_one: "calculateAvoidAssertions sourceFile \<le> 1"
  by (simp add: calculateAvoidAssertions_def Let_def)

lemma calculateScoreWith_range:
  assumes dm: "distinct (map fst m)" and dw: "distinct (map fst w)"
    and named: "\<forall>k \<in> fst ` set m. k \<in> set objectPrototypeNames \<longrightarrow> k \<in> fst ` set w"
    and unit: "\<forall>k \<in> fst ` set m. 0 \<le> the (map_of m k) \<and> the (map_of m k) \<le> 1"
    and pos: "\<forall>k \<in> fst ` set w. 0 \<le> the (map_of w k)"
  shows "\<exists>r. calculateScoreWith w m = Num r \<and> 0 \<le> r \<and> r \<le> 100"
proof -
  have no: "\<not> (\<exists>k \<in> fst ` set m. k \<in> set objectPrototypeNames \<and> k \<notin> fst ` set w)"
    using named by blast
  show ?thesis
  proof (cases "0 < (\<Sum>k \<in> fst ` set w. the (map_of w k))")
    case False
    then show ?thesis using calculateScoreWith_closed_form [OF dm dw] by simp
  next
    case True
    let ?T = "\<Sum>k \<in> fst ` set w. the (map_of w k)"
    let ?S = "\<Sum>k \<in> fst ` set m \<inter> fst ` set w. the (map_of w k) * the (map_of m k)"
    have nonneg: "0 \<le> ?S"
      using unit pos by (intro sum_nonneg mult_nonneg_nonneg) auto
    have "?S \<le> (\<Sum>k \<in> fst ` set m \<inter> fst ` set w. the (map_of w k))"
      using unit pos by (intro sum_mono mult_left_le) auto
    also have "\<dots> \<le> ?T"
      using pos by (intro sum_mono2) auto
    finally have le: "?S \<le> ?T" .
    have "0 \<le> ?S / ?T * 100" using nonneg True by simp
    moreover have "?S / ?T * 100 \<le> 100" using le True by (simp add: divide_le_eq)
    ultimately show ?thesis using calculateScoreWith_closed_form [OF dm dw] True no by simp
  qed
qed

text \<open>
  Claim C1 says that every metric is in \<open>[0,1]\<close> and every score in \<open>[0,100]\<close>. The
  code does not keep that: \<open>calculateAvoidAny\<close> divides the count of \<open>any\<close> nodes by the
  count of type references, which does not count them, and \<open>calculateAvoidAssertions\<close>
  divides the count of assertions by a count of other expressions. Two \<open>any\<close> against
  one type reference give \<open>avoidAny = -1\<close>, two non-null assertions and no other
  expression give \<open>avoidAssertions = -1\<close>, and ten \<open>any\<close> against one type reference give
  the score \<open>-10\<close>.
\<close>

theorem metrics_below_zero:
  "calculateAvoidAny twoAnyFile = - 1 \<and>
   calculateAvoidAssertions twoNonNullFile = - 1 \<and>
   map_sum id score (analyseFile ''ten.ts'' tenAnyFile) = Inr (Num (- 10))"
  by code_simp

end
